theory Spec2Isabelle
  imports Complex_Main "HOL-Library.Sublist"
begin

section \<open>The journey solar-production simulator\<close>

text \<open>
  A shallow embedding of \<^verbatim>\<open>src/solar_prod_planner_cloud_cover.py\<close>: the function
  \<^verbatim>\<open>fetch_cloud_cover\<close> and the callback \<^verbatim>\<open>update_solar_production\<close>.

  Conventions of the model.
  \<^item> Python floats are modelled as \<open>real\<close>: the arithmetic of the source is read as exact
    arithmetic. \<^verbatim>\<open>np.sin(np.radians(x))\<close> is \<open>sin (x * pi / 180)\<close>.
  \<^item> A \<^verbatim>\<open>datetime\<close> in UTC is the number of microseconds since 1970-01-01T00:00:00Z
    (an \<open>int\<close>), a \<^verbatim>\<open>timedelta\<close> is a number of microseconds; both have the range
    limits of the Python types, beyond which the source raises \<^verbatim>\<open>OverflowError\<close>.
  \<^item> The libraries the source calls are parameters, collected in the record \<open>env\<close>:
    \<^verbatim>\<open>geodesic(a, b).km\<close>, the apparent elevation of \<^verbatim>\<open>get_solarposition\<close>,
    \<^verbatim>\<open>strftime("%Y-%m-%d")\<close> and \<^verbatim>\<open>requests.get\<close>.
  \<^item> The network is an effect: every request made is appended to the field
    \<open>provider_calls\<close> of the state, and the reply may depend on how many requests were
    made before.
  \<^item> The \<^verbatim>\<open>print\<close> calls, the figure and the formatting of the total are not modelled.
\<close>

subsection \<open>Data\<close>

datatype error = KeyError | ValueError | ZeroDivisionError | OverflowError | ConnectionError

text \<open>A decoded JSON document, as \<^verbatim>\<open>response.json()\<close> returns it.\<close>

datatype json =
    JNull
  | JBool bool
  | JNum real
  | JStr string
  | JArr "json list"
  | JObj "(string \<times> json) list"

text \<open>
  What \<^verbatim>\<open>requests.get(url)\<close> does: it raises, or it returns a response with a status
  code and a body; the body is \<open>None\<close> when \<^verbatim>\<open>response.json()\<close> raises.
\<close>

datatype reply = RequestException | Reply int "json option"

type_synonym position = "real \<times> real"

record env =
  geodesic_km :: "position \<Rightarrow> position \<Rightarrow> real"
  apparent_elevation :: "int \<Rightarrow> real \<Rightarrow> real \<Rightarrow> real"
  strftime_date :: "int \<Rightarrow> string"
  requests_get :: "nat \<Rightarrow> real \<Rightarrow> real \<Rightarrow> string \<Rightarrow> reply"

text \<open>
  The arguments of the callback that the loop reads; \<open>apply_cloud\<close> is
  \<^verbatim>\<open>"on" in cloud_toggle\<close>.
\<close>

record params =
  surface_area :: real
  kw_per_m2 :: real
  vessel_speed :: real
  apply_cloud :: bool

text \<open>The variables the loop updates, and the log of the requests sent to the provider.\<close>

record state =
  total_production :: real
  times :: "int list"
  production_values :: "real list"
  cloud_cover_cache :: "string \<rightharpoonup> real"
  provider_calls :: "(real \<times> real \<times> string) list"

text \<open>
  The geojson of the edit control: \<open>None\<close> is \<^verbatim>\<open>None\<close>, \<open>Geojson None\<close> a dictionary
  without the key \<^verbatim>\<open>"features"\<close> (the empty dictionary too). The coordinates of a feature
  are (lon, lat) pairs; \<open>Feature None\<close> is a feature without geometry or coordinates.
\<close>

datatype feature = Feature "(real \<times> real) list option"

datatype geojson = Geojson "feature list option"

datatype outcome = InvalidInputs | Production "int list" "real list" real

subsection \<open>The cloud-cover provider: \<^verbatim>\<open>fetch_cloud_cover\<close>\<close>

text \<open>\<^verbatim>\<open>key in x\<close> for a string key; \<open>None\<close> is a \<^verbatim>\<open>TypeError\<close>.\<close>

fun py_in :: "string \<Rightarrow> json \<Rightarrow> bool option" where
  "py_in k (JObj kvs) = Some (k \<in> fst ` set kvs)"
| "py_in k (JArr xs) = Some (JStr k \<in> set xs)"
| "py_in k (JStr s) = Some (sublist k s)"
| "py_in k JNull = None"
| "py_in k (JBool b) = None"
| "py_in k (JNum x) = None"

text \<open>
  \<^verbatim>\<open>x[key]\<close> for a string key; \<open>None\<close> is a \<^verbatim>\<open>KeyError\<close> or a \<^verbatim>\<open>TypeError\<close>.
  Of a key given twice in a JSON object, Python's decoder keeps the last value.
\<close>

fun py_getitem :: "json \<Rightarrow> string \<Rightarrow> json option" where
  "py_getitem (JObj kvs) k = map_of (rev kvs) k"
| "py_getitem _ k = None"

text \<open>\<^verbatim>\<open>x.get(key, 0)\<close>; \<open>None\<close> is an \<^verbatim>\<open>AttributeError\<close>.\<close>

fun py_get0 :: "json \<Rightarrow> string \<Rightarrow> json option" where
  "py_get0 (JObj kvs) k = (case map_of (rev kvs) k of Some v \<Rightarrow> Some v | None \<Rightarrow> Some (JNum 0))"
| "py_get0 _ k = None"

text \<open>\<^verbatim>\<open>x / 100\<close>; \<open>None\<close> is a \<^verbatim>\<open>TypeError\<close>. A Python \<^verbatim>\<open>bool\<close> is a number.\<close>

fun py_div100 :: "json \<Rightarrow> real option" where
  "py_div100 (JNum x) = Some (x / 100)"
| "py_div100 (JBool b) = Some ((if b then 1 else 0) / 100)"
| "py_div100 _ = None"

text \<open>
  The body of the \<^verbatim>\<open>try\<close> block once the document is decoded. \<open>Some r\<close> is
  \<^verbatim>\<open>return cloud_cover / 100\<close>; \<open>None\<close> is the \<^verbatim>\<open>else\<close> branch or an exception that the
  \<^verbatim>\<open>except\<close> clause catches, after both of which the function goes on to \<^verbatim>\<open>return 0\<close>.
\<close>

definition try_body :: "json \<Rightarrow> string \<Rightarrow> real option" where
  "try_body data formatted_date =
     (case py_in ''properties'' data of
        None \<Rightarrow> None
      | Some False \<Rightarrow> None
      | Some True \<Rightarrow>
     (case py_getitem data ''properties'' of
        None \<Rightarrow> None
      | Some props \<Rightarrow>
     (case py_in ''parameter'' props of
        None \<Rightarrow> None
      | Some False \<Rightarrow> None
      | Some True \<Rightarrow>
     (case py_getitem props ''parameter'' of
        None \<Rightarrow> None
      | Some par \<Rightarrow>
     (case py_in ''CLOUD_AMT'' par of
        None \<Rightarrow> None
      | Some False \<Rightarrow> None
      | Some True \<Rightarrow>
     (case py_getitem par ''CLOUD_AMT'' of
        None \<Rightarrow> None
      | Some amt \<Rightarrow>
     (case py_get0 amt formatted_date of
        None \<Rightarrow> None
      | Some cloud_cover \<Rightarrow> py_div100 cloud_cover)))))))"

text \<open>What \<^verbatim>\<open>fetch_cloud_cover\<close> returns once \<^verbatim>\<open>requests.get\<close> has returned.\<close>

definition after_response :: "int \<Rightarrow> json option \<Rightarrow> string \<Rightarrow> real" where
  "after_response status body formatted_date =
     (if status = 200 then
        (case body of
           None \<Rightarrow> 0
         | Some data \<Rightarrow> (case try_body data formatted_date of Some r \<Rightarrow> r | None \<Rightarrow> 0))
      else 0)"

text \<open>\<^verbatim>\<open>date.replace("-", "")\<close>\<close>

definition formatted :: "string \<Rightarrow> string" where
  "formatted date = filter (\<lambda>c. c \<noteq> CHR ''-'') date"

text \<open>
  \<open>n\<close> is the number of requests made before this one. An exception of \<^verbatim>\<open>requests.get\<close>
  is outside the \<^verbatim>\<open>try\<close> block and leaves the function.
\<close>

definition fetch_cloud_cover :: "env \<Rightarrow> nat \<Rightarrow> real \<Rightarrow> real \<Rightarrow> string \<Rightarrow> error + real" where
  "fetch_cloud_cover E n lat lon date =
     (case requests_get E n lat lon (formatted date) of
        RequestException \<Rightarrow> Inl ConnectionError
      | Reply status body \<Rightarrow> Inr (after_response status body (formatted date)))"

subsection \<open>Time\<close>

definition ten_minutes :: int where
  "ten_minutes = 600000000"

text \<open>Python rounds a float number of microseconds to the nearest integer, ties to even.\<close>

definition round_half_even :: "real \<Rightarrow> int" where
  "round_half_even x =
     (let f = \<lfloor>x\<rfloor>; r = x - of_int f
      in if r < 1 / 2 then f else if 1 / 2 < r then f + 1 else if even f then f else f + 1)"

text \<open>
  \<^verbatim>\<open>timedelta(hours=h)\<close>, in microseconds. The days of a \<^verbatim>\<open>timedelta\<close> are between
  -999999999 and 999999999.
\<close>

definition timedelta_hours :: "real \<Rightarrow> error + int" where
  "timedelta_hours h =
     (let us = round_half_even (h * 3600000000)
      in if - 999999999 \<le> us div 86400000000 \<and> us div 86400000000 \<le> 999999999
         then Inr us else Inl OverflowError)"

text \<open>
  \<^verbatim>\<open>t + d\<close> for a datetime and a timedelta: the result is between 0001-01-01T00:00:00
  and 9999-12-31T23:59:59.999999.
\<close>

definition datetime_ok :: "int \<Rightarrow> bool" where
  "datetime_ok t \<longleftrightarrow> - 62135596800000000 \<le> t \<and> t \<le> 253402300799999999"

definition datetime_add :: "int \<Rightarrow> int \<Rightarrow> error + int" where
  "datetime_add t d = (if datetime_ok (t + d) then Inr (t + d) else Inl OverflowError)"

text \<open>\<^verbatim>\<open>int(x)\<close> of a float truncates towards zero.\<close>

definition py_int :: "real \<Rightarrow> int" where
  "py_int x = (if 0 \<le> x then \<lfloor>x\<rfloor> else \<lceil>x\<rceil>)"

text \<open>\<^verbatim>\<open>d.total_seconds()\<close>\<close>

definition total_seconds :: "int \<Rightarrow> real" where
  "total_seconds d = of_int d / 1000000"

text \<open>\<^verbatim>\<open>max(2, int(segment_duration.total_seconds() / 600))\<close>\<close>

definition num_steps_of :: "int \<Rightarrow> nat" where
  "num_steps_of segment_duration = nat (max 2 (py_int (total_seconds segment_duration / 600)))"

text \<open>
  \<^verbatim>\<open>[current_time + timedelta(minutes=10 * j) for j in range(num_steps)]\<close>: each sum may
  leave the range of a datetime.
\<close>

definition times_segment_of :: "int \<Rightarrow> nat \<Rightarrow> error + int list" where
  "times_segment_of current_time num_steps =
     (if list_all (\<lambda>j. datetime_ok (current_time + ten_minutes * int j)) [0..<num_steps]
      then Inr (map (\<lambda>j. current_time + ten_minutes * int j) [0..<num_steps])
      else Inl OverflowError)"

text \<open>\<^verbatim>\<open>np.linspace(a, b, n)\<close>\<close>

definition linspace :: "real \<Rightarrow> real \<Rightarrow> nat \<Rightarrow> real list" where
  "linspace a b n =
     (if n = 1 then [a] else map (\<lambda>j. a + real j * ((b - a) / real (n - 1))) [0..<n])"

subsection \<open>The loop of \<^verbatim>\<open>update_solar_production\<close>\<close>

text \<open>The body of the inner loop, for the sample at time \<open>t\<close> and position \<open>(lat, lon)\<close>.\<close>

definition lookup_cloud :: "env \<Rightarrow> int \<Rightarrow> real \<Rightarrow> real \<Rightarrow> state \<Rightarrow> error + state" where
  "lookup_cloud E t lat lon st =
     (let date_key = strftime_date E t
      in if date_key \<notin> dom (cloud_cover_cache st) then
           (case fetch_cloud_cover E (length (provider_calls st)) lat lon date_key of
              Inl e \<Rightarrow> Inl e
            | Inr c \<Rightarrow>
                Inr (st\<lparr>cloud_cover_cache := (cloud_cover_cache st)(date_key \<mapsto> c),
                        provider_calls := provider_calls st @ [(lat, lon, date_key)]\<rparr>))
         else Inr st)"

definition attenuation_of :: "params \<Rightarrow> state \<Rightarrow> string \<Rightarrow> error + real" where
  "attenuation_of P st date_key =
     (if apply_cloud P then
        (case cloud_cover_cache st date_key of
           None \<Rightarrow> Inl KeyError
         | Some c \<Rightarrow> Inr (1 - c))
      else Inr 1)"

definition record_production :: "env \<Rightarrow> params \<Rightarrow> int \<Rightarrow> real \<Rightarrow> real \<Rightarrow> real \<Rightarrow> state \<Rightarrow> state" where
  "record_production E P t lat lon attenuation st =
     (let solar_altitude = apparent_elevation E t lat lon
      in if 0 < solar_altitude then
           (let irradiance_factor = sin (solar_altitude * pi / 180);
                segment_production = surface_area P * kw_per_m2 P * irradiance_factor * attenuation
            in st\<lparr>times := times st @ [t],
                  production_values := production_values st @ [segment_production],
                  total_production := total_production st + segment_production * (10 / 60)\<rparr>)
         else st)"

definition sample_step :: "env \<Rightarrow> params \<Rightarrow> int \<times> real \<times> real \<Rightarrow> state \<Rightarrow> error + state" where
  "sample_step E P s st =
     (case s of (t, lat, lon) \<Rightarrow>
        (case lookup_cloud E t lat lon st of
           Inl e \<Rightarrow> Inl e
         | Inr st1 \<Rightarrow>
             (case attenuation_of P st1 (strftime_date E t) of
                Inl e \<Rightarrow> Inl e
              | Inr attenuation \<Rightarrow> Inr (record_production E P t lat lon attenuation st1))))"

text \<open>\<^verbatim>\<open>for j in range(num_steps)\<close>, over the three lists of the segment.\<close>

fun sample_loop ::
  "env \<Rightarrow> params \<Rightarrow> real list \<Rightarrow> real list \<Rightarrow> int list \<Rightarrow> nat list \<Rightarrow> state \<Rightarrow> error + state" where
  "sample_loop E P lats lons times_segment [] st = Inr st"
| "sample_loop E P lats lons times_segment (j # js) st =
     (case sample_step E P (times_segment ! j, lats ! j, lons ! j) st of
        Inl e \<Rightarrow> Inl e
      | Inr st' \<Rightarrow> sample_loop E P lats lons times_segment js st')"

text \<open>
  The body of the outer loop for the segment from \<open>start\<close> to \<open>end\<close>; it returns the new
  \<^verbatim>\<open>current_time\<close> and the new state.
\<close>

definition process_segment ::
  "env \<Rightarrow> params \<Rightarrow> position \<Rightarrow> position \<Rightarrow> int \<Rightarrow> state \<Rightarrow> error + (int \<times> state)" where
  "process_segment E P start end current_time st =
     (if vessel_speed P = 0 then Inl ZeroDivisionError
      else
        (case timedelta_hours (geodesic_km E start end / vessel_speed P) of
           Inl e \<Rightarrow> Inl e
         | Inr segment_duration \<Rightarrow>
             (let num_steps = num_steps_of segment_duration;
                  lats = linspace (fst start) (fst end) num_steps;
                  lons = linspace (snd start) (snd end) num_steps
              in (case times_segment_of current_time num_steps of
                    Inl e \<Rightarrow> Inl e
                  | Inr times_segment \<Rightarrow>
                      (case datetime_add current_time segment_duration of
                         Inl e \<Rightarrow> Inl e
                       | Inr current_time' \<Rightarrow>
                           (case sample_loop E P lats lons times_segment [0..<num_steps] st of
                              Inl e \<Rightarrow> Inl e
                            | Inr st' \<Rightarrow> Inr (current_time', st')))))))"

text \<open>
  \<^verbatim>\<open>for i in range(len(route_positions) - 1)\<close> with \<^verbatim>\<open>start, end = route_positions[i],
  route_positions[i + 1]\<close>: the consecutive pairs of the list, none when it has fewer than
  two elements.
\<close>

fun route_loop :: "env \<Rightarrow> params \<Rightarrow> position list \<Rightarrow> int \<Rightarrow> state \<Rightarrow> error + state" where
  "route_loop E P (start # end # rest) current_time st =
     (case process_segment E P start end current_time st of
        Inl e \<Rightarrow> Inl e
      | Inr (current_time', st') \<Rightarrow> route_loop E P (end # rest) current_time' st')"
| "route_loop E P [p] current_time st = Inr st"
| "route_loop E P [] current_time st = Inr st"

definition initial_state :: state where
  "initial_state =
     \<lparr>total_production = 0, times = [], production_values = [],
      cloud_cover_cache = Map.empty, provider_calls = []\<rparr>"

text \<open>
  The callback. \<open>start_date\<close> is the instant that \<^verbatim>\<open>strptime\<close> reads from the text of the
  form, \<open>None\<close> when it raises \<^verbatim>\<open>ValueError\<close>. The result is what the callback returns and
  the requests it has sent to the provider.
\<close>

definition update_solar_production ::
  "env \<Rightarrow> geojson option \<Rightarrow> real \<Rightarrow> real \<Rightarrow> int option \<Rightarrow> real \<Rightarrow> string list
     \<Rightarrow> error + (outcome \<times> (real \<times> real \<times> string) list)" where
  "update_solar_production E geojson surface_area' kw_per_m2' start_date vessel_speed' cloud_toggle =
     (case geojson of
        None \<Rightarrow> Inr (InvalidInputs, [])
      | Some (Geojson None) \<Rightarrow> Inr (InvalidInputs, [])
      | Some (Geojson (Some [])) \<Rightarrow> Inr (InvalidInputs, [])
      | Some (Geojson (Some (Feature None # _))) \<Rightarrow> Inl KeyError
      | Some (Geojson (Some (Feature (Some coordinates) # _))) \<Rightarrow>
          (let route_positions = map (\<lambda>(lon, lat). (lat, lon)) coordinates
           in (case start_date of
                 None \<Rightarrow> Inl ValueError
               | Some current_time \<Rightarrow>
                   (let P = \<lparr>surface_area = surface_area', kw_per_m2 = kw_per_m2',
                             vessel_speed = vessel_speed',
                             apply_cloud = (''on'' \<in> set cloud_toggle)\<rparr>
                    in (case route_loop E P route_positions current_time initial_state of
                          Inl e \<Rightarrow> Inl e
                        | Inr st \<Rightarrow>
                            Inr (Production (times st) (production_values st) (total_production st),
                                 provider_calls st))))))"

subsection \<open>The samples of a route\<close>

text \<open>
  The definitions of this subsection are not code of the source: they name what the
  theorems speak about. A sample is a time and a position (lat, lon) at which the inner loop
  runs its body.
\<close>

type_synonym sample = "int \<times> real \<times> real"

text \<open>The samples of one segment, in the order of the inner loop.\<close>

definition segment_samples :: "position \<Rightarrow> position \<Rightarrow> int \<Rightarrow> nat \<Rightarrow> sample list" where
  "segment_samples start end current_time num_steps =
     map (\<lambda>j. (current_time + ten_minutes * int j,
               linspace (fst start) (fst end) num_steps ! j,
               linspace (snd start) (snd end) num_steps ! j)) [0..<num_steps]"

text \<open>The samples of the whole route, segment after segment.\<close>

fun route_samples :: "env \<Rightarrow> params \<Rightarrow> position list \<Rightarrow> int \<Rightarrow> sample list" where
  "route_samples E P (start # end # rest) current_time =
     (case timedelta_hours (geodesic_km E start end / vessel_speed P) of
        Inl e \<Rightarrow> []
      | Inr segment_duration \<Rightarrow>
          segment_samples start end current_time (num_steps_of segment_duration)
          @ route_samples E P (end # rest) (current_time + segment_duration))"
| "route_samples E P [p] current_time = []"
| "route_samples E P [] current_time = []"

text \<open>The body of the inner loop, run over a list of samples.\<close>

fun run_samples :: "env \<Rightarrow> params \<Rightarrow> sample list \<Rightarrow> state \<Rightarrow> error + state" where
  "run_samples E P [] st = Inr st"
| "run_samples E P (s # ss) st =
     (case sample_step E P s st of Inl e \<Rightarrow> Inl e | Inr st' \<Rightarrow> run_samples E P ss st')"

text \<open>The route that the callback reads from a geojson whose first feature has coordinates.\<close>

definition positions_of :: "(real \<times> real) list \<Rightarrow> position list" where
  "positions_of coordinates = map (\<lambda>(lon, lat). (lat, lon)) coordinates"

text \<open>The record of the callback's arguments that the loop reads.\<close>

definition params_of :: "real \<Rightarrow> real \<Rightarrow> real \<Rightarrow> string list \<Rightarrow> params" where
  "params_of surface_area' kw_per_m2' vessel_speed' cloud_toggle =
     \<lparr>surface_area = surface_area', kw_per_m2 = kw_per_m2', vessel_speed = vessel_speed',
      apply_cloud = (''on'' \<in> set cloud_toggle)\<rparr>"

definition lat_of :: "sample \<Rightarrow> real" where
  "lat_of s = fst (snd s)"

definition lon_of :: "sample \<Rightarrow> real" where
  "lon_of s = snd (snd s)"

definition daylight :: "env \<Rightarrow> sample \<Rightarrow> bool" where
  "daylight E s = (case s of (t, lat, lon) \<Rightarrow> 0 < apparent_elevation E t lat lon)"

definition sample_date :: "env \<Rightarrow> sample \<Rightarrow> string" where
  "sample_date E s = strftime_date E (fst s)"

text \<open>The power of a sample before attenuation.\<close>

definition clear_sky_power :: "env \<Rightarrow> params \<Rightarrow> sample \<Rightarrow> real" where
  "clear_sky_power E P s =
     (case s of (t, lat, lon) \<Rightarrow>
        surface_area P * kw_per_m2 P * sin (apparent_elevation E t lat lon * pi / 180))"

definition cached :: "(string \<rightharpoonup> real) \<Rightarrow> string \<Rightarrow> real" where
  "cached cache d = (case cache d of Some c \<Rightarrow> c | None \<Rightarrow> 0)"

text \<open>Line 114 of the source, for a cloud fraction that depends on the date only.\<close>

definition attenuation_with :: "bool \<Rightarrow> (string \<Rightarrow> real) \<Rightarrow> string \<Rightarrow> real" where
  "attenuation_with enabled fraction d = (if enabled then 1 - fraction d else 1)"

text \<open>
  The requests that a list of samples causes when the dates in \<open>seen\<close> are in the cache:
  one for the first sample of each other date, at the position of that sample.
\<close>

fun first_seen :: "env \<Rightarrow> string set \<Rightarrow> sample list \<Rightarrow> (real \<times> real \<times> string) list" where
  "first_seen E seen [] = []"
| "first_seen E seen (s # ss) =
     (if sample_date E s \<in> seen then first_seen E seen ss
      else (fst (snd s), snd (snd s), sample_date E s)
           # first_seen E (insert (sample_date E s) seen) ss)"

definition call_date :: "real \<times> real \<times> string \<Rightarrow> string" where
  "call_date c = snd (snd c)"

text \<open>
  The cloud fraction that the run has for a date: what \<^verbatim>\<open>fetch_cloud_cover\<close> returned for
  the request of this date in the log of the requests, \<open>n\<close> being the number of requests
  made before the first one of the list.
\<close>

fun fetched_fraction :: "env \<Rightarrow> nat \<Rightarrow> (real \<times> real \<times> string) list \<Rightarrow> string \<Rightarrow> real" where
  "fetched_fraction E n [] d = 0"
| "fetched_fraction E n (c # cs) d =
     (if call_date c = d then
        (case fetch_cloud_cover E n (fst c) (fst (snd c)) d of Inr fraction \<Rightarrow> fraction | Inl e \<Rightarrow> 0)
      else fetched_fraction E (Suc n) cs d)"

text \<open>
  The cache holds the dates of the requests made, each date was requested once, and the
  value of a date is what \<^verbatim>\<open>fetch_cloud_cover\<close> returned for its request.
\<close>

definition cache_ok :: "env \<Rightarrow> state \<Rightarrow> bool" where
  "cache_ok E st \<longleftrightarrow>
     dom (cloud_cover_cache st) = call_date ` set (provider_calls st)
     \<and> distinct (map call_date (provider_calls st))
     \<and> (\<forall>k < length (provider_calls st).
          case provider_calls st ! k of (lat, lon, d) \<Rightarrow>
            \<exists>c. cloud_cover_cache st d = Some c \<and> fetch_cloud_cover E k lat lon d = Inr c)"

text \<open>
  The reply of the provider in the words of the specification. The cloud amount of a date
  is the value at \<^verbatim>\<open>properties.parameter.CLOUD_AMT\<close> under the date. The provider succeeds
  with a cloud fraction when the status is 200, the body is a JSON document, the cloud
  amount of the date is there and is a number (in percent); everything else is a failure.
\<close>

definition cloud_amount :: "json \<Rightarrow> string \<Rightarrow> json option" where
  "cloud_amount data formatted_date =
     (case py_getitem data ''properties'' of
        None \<Rightarrow> None
      | Some props \<Rightarrow>
     (case py_getitem props ''parameter'' of
        None \<Rightarrow> None
      | Some par \<Rightarrow>
     (case py_getitem par ''CLOUD_AMT'' of
        None \<Rightarrow> None
      | Some amt \<Rightarrow> py_getitem amt formatted_date)))"


text \<open>
  The number of samples of a segment in the words of the specification:
  max(2, floor(duration-in-seconds / 600)).
\<close>

definition spec_sample_count :: "real \<Rightarrow> nat" where
  "spec_sample_count duration_in_seconds = nat (max 2 \<lfloor>duration_in_seconds / 600\<rfloor>)"

text \<open>The durations of the segments of a route, in microseconds.\<close>

fun route_durations :: "env \<Rightarrow> params \<Rightarrow> position list \<Rightarrow> int list" where
  "route_durations E P (start # end # rest) =
     (case timedelta_hours (geodesic_km E start end / vessel_speed P) of
        Inl e \<Rightarrow> []
      | Inr segment_duration \<Rightarrow> segment_duration # route_durations E P (end # rest))"
| "route_durations E P [p] = []"
| "route_durations E P [] = []"

text \<open>The total is the sum of the recorded powers, each weighted with ten minutes.\<close>

definition energy_accounted :: "state \<Rightarrow> bool" where
  "energy_accounted st \<longleftrightarrow>
     total_production st = (\<Sum>p\<leftarrow>production_values st. p * (10 / 60))"

subsection \<open>Example inputs\<close>

text \<open>A reply of the provider with a cloud amount (in percent) for one date.\<close>

definition cloud_payload :: "string \<Rightarrow> real \<Rightarrow> json" where
  "cloud_payload formatted_date percent =
     JObj [(''properties'',
            JObj [(''parameter'',
                   JObj [(''CLOUD_AMT'', JObj [(formatted_date, JNum percent)])])])]"

text \<open>
  An environment in which every segment is \<open>km\<close> long, the sun stands at the same
  elevation all the time, every time is on 2024-06-21 and the provider always gives the
  same reply.
\<close>

definition day_env :: "real \<Rightarrow> real \<Rightarrow> reply \<Rightarrow> env" where
  "day_env km elevation r =
     \<lparr>geodesic_km = (\<lambda>a b. km), apparent_elevation = (\<lambda>t lat lon. elevation),
      strftime_date = (\<lambda>t. ''2024-06-21''), requests_get = (\<lambda>n lat lon d. r)\<rparr>"

text \<open>A route of two waypoints, from (lon 0, lat 0) to (lon 1, lat 0).\<close>

definition line_route :: "geojson option" where
  "line_route = Some (Geojson (Some [Feature (Some [(0, 0), (1, 0)])]))"

section \<open>Properties\<close>

subsection \<open>Energy accounting\<close>

lemma lookup_cloud_production:
  "lookup_cloud E t lat lon st = Inr st' \<Longrightarrow>
     total_production st' = total_production st \<and> production_values st' = production_values st
     \<and> times st' = times st"
  by (auto simp: lookup_cloud_def Let_def split: if_splits sum.splits)

lemma record_production_energy:
  "energy_accounted st \<Longrightarrow> energy_accounted (record_production E P t lat lon a st)"
  by (simp add: energy_accounted_def record_production_def Let_def)

lemma sample_step_energy:
  assumes "sample_step E P s st = Inr st'" and "energy_accounted st"
  shows "energy_accounted st'"
proof -
  obtain t lat lon where s: "s = (t, lat, lon)" by (cases s) auto
  from assms(1) obtain st1 a where l: "lookup_cloud E t lat lon st = Inr st1"
    and st': "st' = record_production E P t lat lon a st1"
    by (auto simp: sample_step_def s split: sum.splits)
  from lookup_cloud_production [OF l] assms(2) have "energy_accounted st1"
    by (simp add: energy_accounted_def)
  then show ?thesis unfolding st' by (rule record_production_energy)
qed

lemma sample_loop_energy:
  "sample_loop E P lats lons ts js st = Inr st' \<Longrightarrow> energy_accounted st \<Longrightarrow> energy_accounted st'"
proof (induction js arbitrary: st)
  case Nil
  then show ?case by simp
next
  case (Cons j js)
  then show ?case by (auto split: sum.splits dest: sample_step_energy)
qed

lemma process_segment_energy:
  "process_segment E P a b ct st = Inr (ct', st') \<Longrightarrow> energy_accounted st \<Longrightarrow> energy_accounted st'"
  by (auto simp: process_segment_def Let_def split: if_splits sum.splits dest: sample_loop_energy)

lemma route_loop_energy:
  "route_loop E P ps ct st = Inr st' \<Longrightarrow> energy_accounted st \<Longrightarrow> energy_accounted st'"
proof (induction E P ps ct st rule: route_loop.induct)
  case (1 E P a b rest ct st)
  then show ?case by (auto split: sum.splits dest: process_segment_energy)
qed simp_all

lemma update_solar_production_Production:
  assumes "update_solar_production E g a k sd v tg = Inr (Production ts ps tot, calls)"
  shows "\<exists>coordinates fs ct st. g = Some (Geojson (Some (Feature (Some coordinates) # fs)))
     \<and> sd = Some ct
     \<and> route_loop E \<lparr>surface_area = a, kw_per_m2 = k, vessel_speed = v, apply_cloud = (''on'' \<in> set tg)\<rparr>
          (map (\<lambda>(lon, lat). (lat, lon)) coordinates) ct initial_state = Inr st
     \<and> ts = times st \<and> ps = production_values st \<and> tot = total_production st \<and> calls = provider_calls st"
  using assms
  by (auto simp: update_solar_production_def Let_def
      split: option.splits geojson.splits list.splits feature.splits sum.splits)


subsection \<open>The loops visit the samples of the route\<close>

lemma run_samples_append:
  "run_samples E P (xs @ ys) st =
     (case run_samples E P xs st of Inl e \<Rightarrow> Inl e | Inr st' \<Rightarrow> run_samples E P ys st')"
  by (induction xs arbitrary: st) (auto split: sum.splits)

lemma sample_loop_run_samples:
  "sample_loop E P lats lons ts js st =
     run_samples E P (map (\<lambda>j. (ts ! j, lats ! j, lons ! j)) js) st"
  by (induction js arbitrary: st) (auto split: sum.splits)

lemma times_segment_of_Inr:
  "times_segment_of ct n = Inr ts \<Longrightarrow> ts = map (\<lambda>j. ct + ten_minutes * int j) [0..<n]"
  by (auto simp: times_segment_of_def split: if_splits)

lemma segment_samples_nth:
  "map (\<lambda>j. (map (\<lambda>j. ct + ten_minutes * int j) [0..<n] ! j, lats ! j, lons ! j)) [0..<n]
     = map (\<lambda>j. (ct + ten_minutes * int j, lats ! j, lons ! j)) [0..<n]"
  by (rule map_cong) auto

lemma process_segment_Inr:
  assumes "process_segment E P a b ct st = Inr (ct', st')"
  shows "\<exists>d. vessel_speed P \<noteq> 0 \<and> timedelta_hours (geodesic_km E a b / vessel_speed P) = Inr d
     \<and> ct' = ct + d
     \<and> run_samples E P (segment_samples a b ct (num_steps_of d)) st = Inr st'"
  using assms
  by (auto simp: process_segment_def Let_def sample_loop_run_samples segment_samples_def
      segment_samples_nth datetime_add_def
      split: if_splits sum.splits dest!: times_segment_of_Inr)

lemma route_loop_run_samples:
  "route_loop E P ps ct st = Inr st' \<Longrightarrow> run_samples E P (route_samples E P ps ct) st = Inr st'"
proof (induction E P ps ct st rule: route_loop.induct)
  case (1 E P a b rest ct st)
  from "1.prems" obtain ct1 st1 where
    seg: "process_segment E P a b ct st = Inr (ct1, st1)"
    and rest: "route_loop E P (b # rest) ct1 st1 = Inr st'"
    by (auto split: sum.splits)
  from process_segment_Inr [OF seg] obtain d where
    d: "timedelta_hours (geodesic_km E a b / vessel_speed P) = Inr d" "ct1 = ct + d"
    and run: "run_samples E P (segment_samples a b ct (num_steps_of d)) st = Inr st1"
    by blast
  from "1.IH" [OF seg refl rest] have "run_samples E P (route_samples E P (b # rest) ct1) st1 = Inr st'" .
  with d run show ?case by (simp add: run_samples_append)
qed simp_all

subsection \<open>The cache\<close>

lemma lookup_cloud_Inr:
  assumes "lookup_cloud E t lat lon st = Inr st1"
  shows "times st1 = times st" "production_values st1 = production_values st"
    "total_production st1 = total_production st"
    "strftime_date E t \<in> dom (cloud_cover_cache st) \<Longrightarrow> st1 = st"
    "strftime_date E t \<notin> dom (cloud_cover_cache st) \<Longrightarrow>
       \<exists>c. fetch_cloud_cover E (length (provider_calls st)) lat lon (strftime_date E t) = Inr c
          \<and> cloud_cover_cache st1 = (cloud_cover_cache st)(strftime_date E t \<mapsto> c)
          \<and> provider_calls st1 = provider_calls st @ [(lat, lon, strftime_date E t)]"
  using assms by (auto simp: lookup_cloud_def Let_def split: if_splits sum.splits)

lemma lookup_cloud_calls:
  assumes "lookup_cloud E t lat lon st = Inr st1"
  shows "provider_calls st1 = provider_calls st @ first_seen E (dom (cloud_cover_cache st)) [(t, lat, lon)]"
  using lookup_cloud_Inr(4,5) [OF assms] by (cases "strftime_date E t \<in> dom (cloud_cover_cache st)") (auto simp: sample_date_def)

lemma lookup_cloud_dom:
  assumes "lookup_cloud E t lat lon st = Inr st1"
  shows "dom (cloud_cover_cache st1) = insert (strftime_date E t) (dom (cloud_cover_cache st))"
  using lookup_cloud_Inr(4,5) [OF assms] by (cases "strftime_date E t \<in> dom (cloud_cover_cache st)") auto

lemma lookup_cloud_mono:
  assumes "lookup_cloud E t lat lon st = Inr st1"
  shows "cloud_cover_cache st \<subseteq>\<^sub>m cloud_cover_cache st1"
  using lookup_cloud_Inr(4,5) [OF assms]
  by (cases "strftime_date E t \<in> dom (cloud_cover_cache st)") (auto simp: map_le_def)

lemma lookup_cloud_cache_ok:
  assumes l: "lookup_cloud E t lat lon st = Inr st1" and ok: "cache_ok E st"
  shows "cache_ok E st1"
proof (cases "strftime_date E t \<in> dom (cloud_cover_cache st)")
  case True
  with lookup_cloud_Inr(4) [OF l] ok show ?thesis by simp
next
  case False
  let ?d = "strftime_date E t"
  from lookup_cloud_Inr(5) [OF l False] obtain c where
    f: "fetch_cloud_cover E (length (provider_calls st)) lat lon ?d = Inr c"
    and c: "cloud_cover_cache st1 = (cloud_cover_cache st)(?d \<mapsto> c)"
    and p: "provider_calls st1 = provider_calls st @ [(lat, lon, ?d)]"
    by blast
  from ok have dom: "dom (cloud_cover_cache st) = call_date ` set (provider_calls st)"
    and dist: "distinct (map call_date (provider_calls st))"
    and old: "\<And>k. k < length (provider_calls st) \<Longrightarrow>
          case provider_calls st ! k of (lat, lon, d) \<Rightarrow>
            \<exists>c. cloud_cover_cache st d = Some c \<and> fetch_cloud_cover E k lat lon d = Inr c"
    by (auto simp: cache_ok_def)
  have 1: "dom (cloud_cover_cache st1) = call_date ` set (provider_calls st1)"
    by (simp add: c p dom call_date_def)
  have 2: "distinct (map call_date (provider_calls st1))"
    using dist False dom by (simp add: p call_date_def)
  have 3: "case provider_calls st1 ! k of (lat, lon, d) \<Rightarrow>
            \<exists>c. cloud_cover_cache st1 d = Some c \<and> fetch_cloud_cover E k lat lon d = Inr c"
    if k: "k < length (provider_calls st1)" for k
  proof (cases "k < length (provider_calls st)")
    case True
    obtain la lo d where e: "provider_calls st ! k = (la, lo, d)" by (cases "provider_calls st ! k") auto
    with old [OF True] obtain c' where c': "cloud_cover_cache st d = Some c'" "fetch_cloud_cover E k la lo d = Inr c'"
      by auto
    from c'(1) False have "d \<noteq> ?d" by auto
    with c' e True show ?thesis by (simp add: p c nth_append)
  next
    case False
    with k have "k = length (provider_calls st)" by (simp add: p)
    then show ?thesis using f by (simp add: p c)
  qed
  from 1 2 3 show ?thesis by (simp add: cache_ok_def)
qed

subsection \<open>The effect of the loop body on the state\<close>

lemma record_production_fields:
  "cloud_cover_cache (record_production E P t lat lon a st) = cloud_cover_cache st"
  "provider_calls (record_production E P t lat lon a st) = provider_calls st"
  "times (record_production E P t lat lon a st)
     = times st @ map fst (filter (daylight E) [(t, lat, lon)])"
  "production_values (record_production E P t lat lon a st)
     = production_values st @ map (\<lambda>s. clear_sky_power E P s * a) (filter (daylight E) [(t, lat, lon)])"
  by (simp_all add: record_production_def Let_def daylight_def clear_sky_power_def)

lemma record_production_cache_ok:
  "cache_ok E (record_production E P t lat lon a st) = cache_ok E st"
  by (simp add: cache_ok_def record_production_fields)

lemma sample_step_Inr:
  assumes "sample_step E P (t, lat, lon) st = Inr st'"
  obtains st1 a where "lookup_cloud E t lat lon st = Inr st1"
    and "attenuation_of P st1 (strftime_date E t) = Inr a"
    and "st' = record_production E P t lat lon a st1"
  using assms by (auto simp: sample_step_def split: sum.splits)

lemma attenuation_of_Inr:
  assumes "attenuation_of P st d = Inr a"
  shows "a = attenuation_with (apply_cloud P) (cached (cloud_cover_cache st)) d"
  using assms by (auto simp: attenuation_of_def attenuation_with_def cached_def split: if_splits option.splits)

lemma cached_mono:
  "m \<subseteq>\<^sub>m m' \<Longrightarrow> d \<in> dom m \<Longrightarrow> cached m' d = cached m d"
  by (auto simp: cached_def map_le_def dom_def split: option.splits)

text \<open>What one step does.\<close>

lemma sample_step_effect:
  assumes "sample_step E P s st = Inr st'"
  shows "cloud_cover_cache st \<subseteq>\<^sub>m cloud_cover_cache st'"
    and "dom (cloud_cover_cache st') = insert (sample_date E s) (dom (cloud_cover_cache st))"
    and "provider_calls st' = provider_calls st @ first_seen E (dom (cloud_cover_cache st)) [s]"
    and "cache_ok E st \<Longrightarrow> cache_ok E st'"
    and "times st' = times st @ map fst (filter (daylight E) [s])"
    and "production_values st' = production_values st
           @ map (\<lambda>s. clear_sky_power E P s
                     * attenuation_with (apply_cloud P) (cached (cloud_cover_cache st')) (sample_date E s))
               (filter (daylight E) [s])"
proof -
  obtain t lat lon where s: "s = (t, lat, lon)" by (cases s) auto
  from assms obtain st1 a where l: "lookup_cloud E t lat lon st = Inr st1"
    and a: "attenuation_of P st1 (strftime_date E t) = Inr a"
    and st': "st' = record_production E P t lat lon a st1"
    unfolding s by (rule sample_step_Inr)
  show "cloud_cover_cache st \<subseteq>\<^sub>m cloud_cover_cache st'"
    using lookup_cloud_mono [OF l] by (simp add: st' record_production_fields)
  show "dom (cloud_cover_cache st') = insert (sample_date E s) (dom (cloud_cover_cache st))"
    using lookup_cloud_dom [OF l] by (simp add: st' record_production_fields sample_date_def s)
  show "provider_calls st' = provider_calls st @ first_seen E (dom (cloud_cover_cache st)) [s]"
    using lookup_cloud_calls [OF l] by (simp add: st' record_production_fields s)
  show "cache_ok E st \<Longrightarrow> cache_ok E st'"
    using lookup_cloud_cache_ok [OF l] by (simp add: st' record_production_cache_ok)
  show "times st' = times st @ map fst (filter (daylight E) [s])"
    using lookup_cloud_Inr(1) [OF l] by (simp add: st' record_production_fields s)
  have "a = attenuation_with (apply_cloud P) (cached (cloud_cover_cache st')) (sample_date E s)"
    using attenuation_of_Inr [OF a] by (simp add: st' record_production_fields sample_date_def s)
  then show "production_values st' = production_values st
           @ map (\<lambda>s. clear_sky_power E P s
                     * attenuation_with (apply_cloud P) (cached (cloud_cover_cache st')) (sample_date E s))
               (filter (daylight E) [s])"
    using lookup_cloud_Inr(2) [OF l] by (simp add: st' record_production_fields s)
qed

lemma run_samples_cache_mono:
  "run_samples E P ss st = Inr st' \<Longrightarrow> cloud_cover_cache st \<subseteq>\<^sub>m cloud_cover_cache st'"
proof (induction ss arbitrary: st)
  case Nil
  then show ?case by simp
next
  case (Cons s ss)
  then obtain st1 where 1: "sample_step E P s st = Inr st1" and 2: "run_samples E P ss st1 = Inr st'"
    by (auto split: sum.splits)
  from sample_step_effect(1) [OF 1] Cons.IH [OF 2] show ?case by (rule map_le_trans)
qed

lemma run_samples_dom:
  "run_samples E P ss st = Inr st' \<Longrightarrow>
     dom (cloud_cover_cache st') = sample_date E ` set ss \<union> dom (cloud_cover_cache st)"
proof (induction ss arbitrary: st)
  case Nil
  then show ?case by simp
next
  case (Cons s ss)
  then obtain st1 where 1: "sample_step E P s st = Inr st1" and 2: "run_samples E P ss st1 = Inr st'"
    by (auto split: sum.splits)
  from sample_step_effect(2) [OF 1] Cons.IH [OF 2] show ?case by auto
qed

lemma run_samples_calls:
  "run_samples E P ss st = Inr st' \<Longrightarrow>
     provider_calls st' = provider_calls st @ first_seen E (dom (cloud_cover_cache st)) ss"
proof (induction ss arbitrary: st)
  case Nil
  then show ?case by simp
next
  case (Cons s ss)
  then obtain st1 where 1: "sample_step E P s st = Inr st1" and 2: "run_samples E P ss st1 = Inr st'"
    by (auto split: sum.splits)
  from sample_step_effect(2,3) [OF 1] Cons.IH [OF 2] show ?case
    by (auto simp: insert_absorb)
qed

lemma run_samples_cache_ok:
  "run_samples E P ss st = Inr st' \<Longrightarrow> cache_ok E st \<Longrightarrow> cache_ok E st'"
proof (induction ss arbitrary: st)
  case Nil
  then show ?case by simp
next
  case (Cons s ss)
  then obtain st1 where 1: "sample_step E P s st = Inr st1" and 2: "run_samples E P ss st1 = Inr st'"
    by (auto split: sum.splits)
  from sample_step_effect(4) [OF 1 Cons.prems(2)] Cons.IH [OF 2] show ?case by simp
qed

lemma run_samples_times:
  "run_samples E P ss st = Inr st' \<Longrightarrow> times st' = times st @ map fst (filter (daylight E) ss)"
proof (induction ss arbitrary: st)
  case Nil
  then show ?case by simp
next
  case (Cons s ss)
  then obtain st1 where 1: "sample_step E P s st = Inr st1" and 2: "run_samples E P ss st1 = Inr st'"
    by (auto split: sum.splits)
  from sample_step_effect(5) [OF 1] Cons.IH [OF 2] show ?case by simp
qed

lemma run_samples_production:
  "run_samples E P ss st = Inr st' \<Longrightarrow>
     production_values st' = production_values st
       @ map (\<lambda>s. clear_sky_power E P s
                 * attenuation_with (apply_cloud P) (cached (cloud_cover_cache st')) (sample_date E s))
           (filter (daylight E) ss)"
proof (induction ss arbitrary: st)
  case Nil
  then show ?case by simp
next
  case (Cons s ss)
  then obtain st1 where 1: "sample_step E P s st = Inr st1" and 2: "run_samples E P ss st1 = Inr st'"
    by (auto split: sum.splits)
  have "sample_date E s \<in> dom (cloud_cover_cache st1)"
    using sample_step_effect(2) [OF 1] by simp
  with run_samples_cache_mono [OF 2]
  have "cached (cloud_cover_cache st') (sample_date E s) = cached (cloud_cover_cache st1) (sample_date E s)"
    by (rule cached_mono)
  then have "attenuation_with (apply_cloud P) (cached (cloud_cover_cache st1)) (sample_date E s)
    = attenuation_with (apply_cloud P) (cached (cloud_cover_cache st')) (sample_date E s)"
    by (simp add: attenuation_with_def)
  with sample_step_effect(6) [OF 1] Cons.IH [OF 2] show ?case by simp
qed

lemma filter_first_seen:
  "filter (\<lambda>c. call_date c = d) (first_seen E seen ss) =
     (if d \<in> seen then []
      else case find (\<lambda>s. sample_date E s = d) ss of
             None \<Rightarrow> []
           | Some s \<Rightarrow> [(fst (snd s), snd (snd s), d)])"
proof (induction ss arbitrary: seen)
  case Nil
  then show ?case by simp
next
  case (Cons s ss)
  show ?case
  proof (cases "sample_date E s \<in> seen")
    case True
    with Cons.IH [of seen] show ?thesis by auto
  next
    case False
    with Cons.IH [of "insert (sample_date E s) seen"] show ?thesis
      by (auto simp: call_date_def)
  qed
qed

lemma set_first_seen:
  "call_date ` set (first_seen E seen ss) = sample_date E ` set ss - seen"
  by (induction ss arbitrary: seen) (auto simp: call_date_def)

lemma distinct_first_seen:
  "distinct (map call_date (first_seen E seen ss))"
proof (induction ss arbitrary: seen)
  case Nil
  then show ?case by simp
next
  case (Cons s ss)
  have "sample_date E s \<notin> call_date ` set (first_seen E (insert (sample_date E s) seen) ss)"
    by (simp add: set_first_seen)
  with Cons.IH show ?case by (simp add: call_date_def)
qed

lemma cache_ok_initial: "cache_ok E initial_state"
  by (simp add: cache_ok_def initial_state_def)

subsection \<open>A whole run\<close>

lemma update_solar_production_run:
  assumes "update_solar_production E (Some (Geojson (Some (Feature (Some coordinates) # fs))))
             a k (Some ct) v tg = Inr (Production ts ps tot, calls)"
  obtains st where
    "run_samples E (params_of a k v tg) (route_samples E (params_of a k v tg) (positions_of coordinates) ct)
       initial_state = Inr st"
    and "ts = times st" and "ps = production_values st" and "tot = total_production st"
    and "calls = provider_calls st"
proof -
  from assms obtain st where
    r: "route_loop E (params_of a k v tg) (positions_of coordinates) ct initial_state = Inr st"
    and o: "ts = times st" "ps = production_values st" "tot = total_production st"
      "calls = provider_calls st"
    by (auto simp: update_solar_production_def Let_def params_of_def positions_of_def split: sum.splits)
  from route_loop_run_samples [OF r] o that show ?thesis by blast
qed

text \<open>What a run that returns a production has done, in terms of the samples of the route.\<close>

lemma update_solar_production_samples:
  assumes "update_solar_production E (Some (Geojson (Some (Feature (Some coordinates) # fs))))
             a k (Some ct) v tg = Inr (Production ts ps tot, calls)"
  defines "P \<equiv> params_of a k v tg"
  defines "samples \<equiv> route_samples E P (positions_of coordinates) ct"
  shows "ts = map fst (filter (daylight E) samples)"
    and "calls = first_seen E {} samples"
    and "\<exists>fraction.
           (\<forall>i < length calls. fetch_cloud_cover E i (fst (calls ! i)) (fst (snd (calls ! i))) (call_date (calls ! i))
               = Inr (fraction (call_date (calls ! i))))
           \<and> ps = map (\<lambda>s. clear_sky_power E P s
                         * attenuation_with (''on'' \<in> set tg) fraction (sample_date E s))
                     (filter (daylight E) samples)"
proof -
  from assms(1) obtain st where
    run: "run_samples E P samples initial_state = Inr st"
    and o: "ts = times st" "ps = production_values st" "calls = provider_calls st"
    unfolding P_def samples_def by (rule update_solar_production_run)
  show "ts = map fst (filter (daylight E) samples)"
    using run_samples_times [OF run] by (simp add: o initial_state_def)
  show "calls = first_seen E {} samples"
    using run_samples_calls [OF run] by (simp add: o initial_state_def)
  have ok: "cache_ok E st"
    using run cache_ok_initial by (rule run_samples_cache_ok)
  have "fetch_cloud_cover E i (fst (calls ! i)) (fst (snd (calls ! i))) (call_date (calls ! i))
               = Inr (cached (cloud_cover_cache st) (call_date (calls ! i)))"
    if "i < length calls" for i
  proof -
    obtain la lo d where c: "provider_calls st ! i = (la, lo, d)" by (cases "provider_calls st ! i") auto
    with ok that show ?thesis by (fastforce simp: cache_ok_def o call_date_def cached_def)
  qed
  moreover have "ps = map (\<lambda>s. clear_sky_power E P s
                         * attenuation_with (''on'' \<in> set tg) (cached (cloud_cover_cache st)) (sample_date E s))
                     (filter (daylight E) samples)"
    using run_samples_production [OF run] by (simp add: o initial_state_def P_def params_of_def)
  ultimately show "\<exists>fraction.
           (\<forall>i < length calls. fetch_cloud_cover E i (fst (calls ! i)) (fst (snd (calls ! i))) (call_date (calls ! i))
               = Inr (fraction (call_date (calls ! i))))
           \<and> ps = map (\<lambda>s. clear_sky_power E P s
                         * attenuation_with (''on'' \<in> set tg) fraction (sample_date E s))
                     (filter (daylight E) samples)"
    by blast
qed

lemma find_first_seen:
  assumes "c \<in> set (first_seen E {} samples)"
  shows "\<exists>s. find (\<lambda>s. sample_date E s = call_date c) samples = Some s
           \<and> c = (lat_of s, lon_of s, sample_date E s)"
proof (cases "find (\<lambda>s. sample_date E s = call_date c) samples")
  case None
  have "c \<in> set (filter (\<lambda>c'. call_date c' = call_date c) (first_seen E {} samples))"
    using assms by simp
  with None show ?thesis by (simp add: filter_first_seen)
next
  case (Some s)
  then have d: "sample_date E s = call_date c" by (auto simp: find_Some_iff)
  have "c \<in> set (filter (\<lambda>c'. call_date c' = call_date c) (first_seen E {} samples))"
    using assms by simp
  with Some have "c = (lat_of s, lon_of s, call_date c)"
    by (simp add: filter_first_seen lat_of_def lon_of_def)
  with Some d show ?thesis by simp
qed


lemma fetched_fraction_eq:
  assumes "\<forall>i < length cs. fetch_cloud_cover E (n + i) (fst (cs ! i)) (fst (snd (cs ! i))) (call_date (cs ! i))
               = Inr (fraction (call_date (cs ! i)))"
    and "d \<in> call_date ` set cs"
  shows "fetched_fraction E n cs d = fraction d"
  using assms
proof (induction cs arbitrary: n)
  case Nil
  then show ?case by simp
next
  case (Cons c cs)
  show ?case
  proof (cases "call_date c = d")
    case True
    from Cons.prems(1) have "fetch_cloud_cover E (n + 0) (fst ((c # cs) ! 0)) (fst (snd ((c # cs) ! 0)))
        (call_date ((c # cs) ! 0)) = Inr (fraction (call_date ((c # cs) ! 0)))"
      by blast
    with True show ?thesis by simp
  next
    case False
    have "\<forall>i < length cs. fetch_cloud_cover E (Suc n + i) (fst (cs ! i)) (fst (snd (cs ! i))) (call_date (cs ! i))
               = Inr (fraction (call_date (cs ! i)))"
    proof (intro allI impI)
      fix i assume "i < length cs"
      then have "Suc i < length (c # cs)" by simp
      with Cons.prems(1) have "fetch_cloud_cover E (n + Suc i) (fst ((c # cs) ! Suc i))
          (fst (snd ((c # cs) ! Suc i))) (call_date ((c # cs) ! Suc i))
        = Inr (fraction (call_date ((c # cs) ! Suc i)))"
        by blast
      then show "fetch_cloud_cover E (Suc n + i) (fst (cs ! i)) (fst (snd (cs ! i))) (call_date (cs ! i))
               = Inr (fraction (call_date (cs ! i)))"
        by simp
    qed
    moreover from Cons.prems(2) False have "d \<in> call_date ` set cs" by auto
    ultimately have "fetched_fraction E (Suc n) cs d = fraction d" by (rule Cons.IH)
    with False show ?thesis by simp
  qed
qed

text \<open>The recorded powers, with the cloud fraction read from the replies to the requests.\<close>

lemma update_solar_production_powers:
  assumes "update_solar_production E (Some (Geojson (Some (Feature (Some coordinates) # fs))))
             a k (Some ct) v tg = Inr (Production ts ps tot, calls)"
  defines "P \<equiv> params_of a k v tg"
  defines "samples \<equiv> route_samples E P (positions_of coordinates) ct"
  shows "ps = map (\<lambda>s. clear_sky_power E P s
                      * attenuation_with (''on'' \<in> set tg) (fetched_fraction E 0 calls) (sample_date E s))
                 (filter (daylight E) samples)"
proof -
  note r = update_solar_production_samples [OF assms(1)]
  from r(3) obtain fraction where
    f: "\<forall>i < length calls. fetch_cloud_cover E i (fst (calls ! i)) (fst (snd (calls ! i))) (call_date (calls ! i))
               = Inr (fraction (call_date (calls ! i)))"
    and ps: "ps = map (\<lambda>s. clear_sky_power E P s
                         * attenuation_with (''on'' \<in> set tg) fraction (sample_date E s))
                     (filter (daylight E) samples)"
    by (auto simp: samples_def P_def)
  have c: "calls = first_seen E {} samples"
    using r(2) by (simp add: samples_def P_def)
  have "fetched_fraction E 0 calls (sample_date E s) = fraction (sample_date E s)"
    if "s \<in> set samples" for s
  proof (rule fetched_fraction_eq)
    show "\<forall>i < length calls. fetch_cloud_cover E (0 + i) (fst (calls ! i)) (fst (snd (calls ! i)))
            (call_date (calls ! i)) = Inr (fraction (call_date (calls ! i)))"
      using f by simp
    show "sample_date E s \<in> call_date ` set calls"
      using that by (simp add: c set_first_seen)
  qed
  then have "attenuation_with (''on'' \<in> set tg) fraction (sample_date E s)
      = attenuation_with (''on'' \<in> set tg) (fetched_fraction E 0 calls) (sample_date E s)"
    if "s \<in> set samples" for s
    using that by (simp add: attenuation_with_def)
  then show ?thesis unfolding ps by (intro map_cong refl) simp
qed

subsection \<open>The power of a sample in daylight\<close>

lemma sin_degrees_pos:
  assumes "0 < e" and "e < 180"
  shows "0 < sin (e * pi / 180)"
proof (rule sin_gt_zero)
  show "0 < e * pi / 180" using assms(1) by simp
  have "e * pi < 180 * pi" using assms(2) by simp
  then show "e * pi / 180 < pi" by simp
qed

subsection \<open>The samples of a segment\<close>

lemma max_2_py_int: "max 2 (py_int x) = max 2 \<lfloor>x\<rfloor>"
proof (cases "0 \<le> x")
  case True
  then show ?thesis by (simp add: py_int_def)
next
  case False
  then have "\<lceil>x\<rceil> \<le> 0" and "\<lfloor>x\<rfloor> \<le> 0" by (simp_all add: ceiling_le_zero floor_le_iff)
  with False show ?thesis by (simp add: py_int_def)
qed

lemma num_steps_of_spec: "num_steps_of d = spec_sample_count (total_seconds d)"
  by (simp add: num_steps_of_def spec_sample_count_def max_2_py_int)

lemma num_steps_of_ge_2: "2 \<le> num_steps_of d"
  by (simp add: num_steps_of_def)

lemma length_segment_samples: "length (segment_samples a b ct n) = n"
  by (simp add: segment_samples_def)

lemma timedelta_hours_zero: "timedelta_hours 0 = Inr 0"
  by (simp add: timedelta_hours_def round_half_even_def)

lemma num_steps_of_zero: "num_steps_of 0 = 2"
  by (simp add: num_steps_of_def py_int_def total_seconds_def)

lemma round_half_even_near: "\<bar>real_of_int (round_half_even x) - x\<bar> \<le> 1 / 2"
proof -
  have "real_of_int \<lfloor>x\<rfloor> \<le> x" and "x < real_of_int \<lfloor>x\<rfloor> + 1" by linarith+
  then show ?thesis by (auto simp: round_half_even_def Let_def)
qed

lemma timedelta_hours_Inr:
  "timedelta_hours h = Inr d \<Longrightarrow> d = round_half_even (h * 3600000000)"
  by (auto simp: timedelta_hours_def Let_def split: if_splits)

lemma map_fst_segment_samples:
  "map fst (segment_samples a b ct n) = map (\<lambda>j. ct + 600000000 * int j) [0..<n]"
  by (simp add: segment_samples_def ten_minutes_def comp_def)

lemma py_int_total_seconds:
  assumes "0 \<le> d"
  shows "py_int (total_seconds d / 600) = d div 600000000"
proof -
  have "\<lfloor>total_seconds d / 600\<rfloor> = \<lfloor>real_of_int d / real_of_int 600000000\<rfloor>"
    by (simp add: total_seconds_def)
  also have "\<dots> = d div 600000000"
    by (rule floor_divide_of_int_eq)
  finally have "\<lfloor>total_seconds d / 600\<rfloor> = d div 600000000" .
  moreover have "0 \<le> total_seconds d / 600"
    using assms by (simp add: total_seconds_def)
  ultimately show ?thesis by (simp add: py_int_def)
qed

lemma last_sample_before_end:
  assumes "600000000 \<le> d" and "j < num_steps_of d"
  shows "600000000 * int j \<le> d"
proof -
  from assms(1) have n: "num_steps_of d = nat (max 2 (d div 600000000))"
    by (simp add: num_steps_of_def py_int_total_seconds)
  show ?thesis
  proof (cases "d div 600000000 \<le> 2")
    case True
    with n assms(2) have "int j \<le> 1" by simp
    with assms(1) show ?thesis by simp
  next
    case False
    with n assms(2) have "int j < d div 600000000" by simp
    then have "600000000 * int j \<le> 600000000 * (d div 600000000)" by simp
    moreover have "600000000 * (d div 600000000) + d mod 600000000 = d"
      by (rule mult_div_mod_eq)
    moreover have "0 \<le> d mod 600000000" by simp
    ultimately show ?thesis by linarith
  qed
qed

lemma segment_times_bounds:
  assumes "t \<in> set (map fst (segment_samples a b ct n))"
  shows "ct \<le> t"
  using assms by (auto simp: map_fst_segment_samples)

lemma segment_times_before_end:
  assumes "t \<in> set (map fst (segment_samples a b ct (num_steps_of d)))" and "600000000 \<le> d"
  shows "t \<le> ct + d"
  using assms last_sample_before_end [of d] by (auto simp: map_fst_segment_samples)

lemma sorted_segment_times: "sorted (map fst (segment_samples a b ct n))"
  by (simp add: map_fst_segment_samples sorted_wrt_map sorted_wrt_iff_nth_less)

lemma route_durations_Nil:
  "route_durations E P ps = [] \<Longrightarrow> route_samples E P ps ct = []"
  by (induction E P ps ct rule: route_samples.induct) (auto split: sum.splits)

lemma sorted_route_samples:
  assumes "\<forall>d \<in> set (butlast (route_durations E P ps)). 600000000 \<le> d"
  shows "sorted (map fst (route_samples E P ps ct))
    \<and> (\<forall>t \<in> set (map fst (route_samples E P ps ct)). ct \<le> t)"
  using assms
proof (induction E P ps ct rule: route_samples.induct)
  case (1 E P a b rest ct)
  show ?case
  proof (cases "timedelta_hours (geodesic_km E a b / vessel_speed P)")
    case (Inl e)
    then show ?thesis by simp
  next
    case (Inr d)
    show ?thesis
    proof (cases "route_durations E P (b # rest) = []")
      case True
      then have "route_samples E P (b # rest) (ct + d) = []" by (rule route_durations_Nil)
      with Inr show ?thesis
        using sorted_segment_times [of a b ct "num_steps_of d"]
          segment_times_bounds [of _ a b ct "num_steps_of d"]
        by simp
    next
      case False
      with "1.prems" Inr have d: "600000000 \<le> d"
        and rest: "\<forall>d \<in> set (butlast (route_durations E P (b # rest))). 600000000 \<le> d"
        by simp_all
      from "1.IH" [OF Inr rest] have
        s: "sorted (map fst (route_samples E P (b # rest) (ct + d)))"
        and g: "\<And>t. t \<in> set (map fst (route_samples E P (b # rest) (ct + d))) \<Longrightarrow> ct + d \<le> t"
        by blast+
      have "sorted (map fst (segment_samples a b ct (num_steps_of d))
                    @ map fst (route_samples E P (b # rest) (ct + d)))"
        unfolding sorted_append
      proof (intro conjI ballI)
        show "sorted (map fst (segment_samples a b ct (num_steps_of d)))"
          by (rule sorted_segment_times)
        show "sorted (map fst (route_samples E P (b # rest) (ct + d)))" by (rule s)
        fix x y
        assume "x \<in> set (map fst (segment_samples a b ct (num_steps_of d)))"
          and "y \<in> set (map fst (route_samples E P (b # rest) (ct + d)))"
        then have "x \<le> ct + d" and "ct + d \<le> y"
          using d segment_times_before_end [of x a b ct d] g [of y] by blast+
        then show "x \<le> y" by simp
      qed
      moreover have "ct \<le> t"
        if "t \<in> set (map fst (segment_samples a b ct (num_steps_of d)))
               \<union> set (map fst (route_samples E P (b # rest) (ct + d)))" for t
      proof -
        from that consider "t \<in> set (map fst (segment_samples a b ct (num_steps_of d)))"
          | "t \<in> set (map fst (route_samples E P (b # rest) (ct + d)))"
          by blast
        then show ?thesis
        proof cases
          case 1
          then show ?thesis by (rule segment_times_bounds)
        next
          case 2
          then have "ct + d \<le> t" by (rule g)
          with d show ?thesis by simp
        qed
      qed
      ultimately show ?thesis using Inr by auto
    qed
  qed
qed simp_all

subsection \<open>The reply of the provider\<close>





subsection \<open>Example runs\<close>

lemma after_response_payload:
  "after_response 200 (Some (cloud_payload ''20240621'' c)) (formatted ''2024-06-21'') = c / 100"
  by (simp add: after_response_def cloud_payload_def try_body_def formatted_def)

lemma timedelta_hours_half: "timedelta_hours (1 / 2) = Inr 1800000000"
  by (simp add: timedelta_hours_def round_half_even_def Let_def)

lemma timedelta_hours_0: "timedelta_hours 0 = Inr 0"
  by (simp add: timedelta_hours_def round_half_even_def Let_def)

lemma num_steps_of_half_hour: "num_steps_of 1800000000 = 3"
  by (simp add: num_steps_of_def py_int_def total_seconds_def)

lemma num_steps_of_0: "num_steps_of 0 = 2"
  by (simp add: num_steps_of_def py_int_def total_seconds_def)

lemma linspace_3: "linspace a b 3 = [a, a + (b - a) / 2, a + 2 * ((b - a) / 2)]"
  by (simp add: linspace_def upt_rec)

lemma linspace_2: "linspace a b 2 = [a, a + (b - a)]"
  by (simp add: linspace_def upt_rec)

lemma times_segment_of_3: "times_segment_of 0 3 = Inr [0, 600000000, 1200000000]"
  by (simp add: times_segment_of_def ten_minutes_def datetime_ok_def upt_rec)

lemma times_segment_of_2: "times_segment_of 0 2 = Inr [0, 600000000]"
  by (simp add: times_segment_of_def ten_minutes_def datetime_ok_def upt_rec)

lemmas run_simps = update_solar_production_def line_route_def day_env_def initial_state_def
     process_segment_def timedelta_hours_half timedelta_hours_0 num_steps_of_half_hour num_steps_of_0
     linspace_3 linspace_2 times_segment_of_3 times_segment_of_2 datetime_add_def datetime_ok_def upt_rec sample_step_def
     lookup_cloud_def fetch_cloud_cover_def after_response_payload attenuation_of_def record_production_def Let_def sin_30

lemma half_cloud_run:
  "update_solar_production (day_env 10 30 (Reply 200 (Some (cloud_payload ''20240621'' 50))))
     line_route 10 (1 / 5) (Some 0) 20 [''on'']
   = Inr (Production [0, 600000000, 1200000000] [1 / 2, 1 / 2, 1 / 2] (1 / 4), [(0, 0, ''2024-06-21'')])"
  by (simp add: run_simps)

lemma half_cloud_off_run:
  "update_solar_production (day_env 10 30 (Reply 200 (Some (cloud_payload ''20240621'' 50))))
     line_route 10 (1 / 5) (Some 0) 20 []
   = Inr (Production [0, 600000000, 1200000000] [1, 1, 1] (1 / 2), [(0, 0, ''2024-06-21'')])"
  by (simp add: run_simps)

lemma night_run:
  "update_solar_production (day_env 10 (- 10) (Reply 200 (Some (cloud_payload ''20240621'' 50))))
     line_route 10 (1 / 5) (Some 0) 20 [''on'']
   = Inr (Production [] [] 0, [(0, 0, ''2024-06-21'')])"
  by (simp add: run_simps)

lemma line_samples:
  "route_samples (day_env 10 e r) (params_of a k 20 tg) (positions_of [(0, 0), (1, 0)]) 0
     = [(0, 0, 0), (600000000, 0, 1 / 2), (1200000000, 0, 1)]"
  by (simp add: positions_of_def params_of_def day_env_def timedelta_hours_half
      num_steps_of_half_hour segment_samples_def linspace_3 upt_rec ten_minutes_def timedelta_hours_0)

lemma two_leg_run:
  "update_solar_production (day_env 10 30 (Reply 500 None))
     (Some (Geojson (Some (Feature (Some [(0, 0), (1, 0), (2, 0)]) # [])))) 10 (1 / 5) (Some 0) 20 []
   = Inr (Production [0, 600000000, 1200000000, 1800000000, 2400000000, 3000000000]
            [1, 1, 1, 1, 1, 1] 1, [(0, 0, ''2024-06-21'')])"
  by (simp add: run_simps after_response_def times_segment_of_def ten_minutes_def)

lemma two_leg_durations:
  "route_durations (day_env 10 30 (Reply 500 None)) (params_of 10 (1 / 5) 20 [])
     (positions_of [(0, 0), (1, 0), (2, 0)]) = [1800000000, 1800000000]"
  by (simp add: positions_of_def params_of_def day_env_def timedelta_hours_half)


lemma night_segment:
  "process_segment (day_env 10 (- 10) (Reply 500 None)) (params_of 10 (1 / 5) 20 []) (0, 0) (0, 1) 0
     initial_state
   = Inr (1800000000, initial_state\<lparr>cloud_cover_cache := [''2024-06-21'' \<mapsto> 0],
                         provider_calls := [(0, 0, ''2024-06-21'')]\<rparr>)"
  by (simp add: run_simps after_response_def params_of_def)

lemma cloud_amount_payload: "cloud_amount (cloud_payload fd c) fd = Some (JNum c)"
  by (simp add: cloud_amount_def cloud_payload_def)

section \<open>The claims\<close>

text \<open>
  C1. The total energy that the simulation reports is the sum, over the samples it has
  retained, of the power of the sample times the fixed step of 10/60 hours, whatever the
  time between two consecutive samples is.
\<close>

theorem total_energy_is_rectangle_sum:
  assumes "update_solar_production E g a k sd v tg = Inr (Production ts ps tot, calls)"
  shows "tot = (\<Sum>p\<leftarrow>ps. p * (10 / 60))"
proof -
  from update_solar_production_Production [OF assms] obtain coordinates ct st P where
    r: "route_loop E P (map (\<lambda>(lon, lat). (lat, lon)) coordinates) ct initial_state = Inr st"
    and o: "ps = production_values st" "tot = total_production st"
    by blast
  have "energy_accounted initial_state" by (simp add: energy_accounted_def initial_state_def)
  from route_loop_energy [OF r this] show ?thesis by (simp add: energy_accounted_def o)
qed

theorem total_energy_is_rectangle_sum_witness:
  "update_solar_production (day_env 10 30 (Reply 200 (Some (cloud_payload ''20240621'' 50))))
     line_route 10 (1 / 5) (Some 0) 20 [''on'']
   = Inr (Production [0, 600000000, 1200000000] [1 / 2, 1 / 2, 1 / 2] (1 / 4),
          [(0, 0, ''2024-06-21'')])
   \<and> (1 / 4 :: real) = (\<Sum>p\<leftarrow>[1 / 2, 1 / 2, 1 / 2]. p * (10 / 60))"
  using total_energy_is_rectangle_sum [OF half_cloud_run] half_cloud_run by simp

text \<open>
  C2, as the code has it. With the cloud flag off, every sample is evaluated with the
  attenuation 1: the recorded powers are the powers before attenuation. The provider is
  queried all the same: once for each date of the samples of the route, at the position of
  the first sample of that date; its replies are not used.
\<close>

theorem cloud_disabled_attenuation:
  assumes "update_solar_production E (Some (Geojson (Some (Feature (Some coordinates) # fs))))
             a k (Some ct) v tg = Inr (Production ts ps tot, calls)"
    and "''on'' \<notin> set tg"
  defines "P \<equiv> params_of a k v tg"
  defines "samples \<equiv> route_samples E P (positions_of coordinates) ct"
  shows "ps = map (\<lambda>s. clear_sky_power E P s * 1) (filter (daylight E) samples)
    \<and> call_date ` set calls = sample_date E ` set samples
    \<and> distinct (map call_date calls)
    \<and> (\<forall>c \<in> set calls. \<exists>s. find (\<lambda>s. sample_date E s = call_date c) samples = Some s
           \<and> c = (lat_of s, lon_of s, sample_date E s))"
proof -
  note r = update_solar_production_samples [OF assms(1)]
  have c: "calls = first_seen E {} samples"
    using r(2) by (simp add: samples_def P_def)
  from r(3) assms(2) have "ps = map (\<lambda>s. clear_sky_power E P s * 1) (filter (daylight E) samples)"
    by (auto simp: attenuation_with_def samples_def P_def)
  moreover have "call_date ` set calls = sample_date E ` set samples"
    by (simp add: c set_first_seen)
  moreover have "distinct (map call_date calls)"
    unfolding c by (rule distinct_first_seen)
  moreover have "\<forall>c \<in> set calls. \<exists>s. find (\<lambda>s. sample_date E s = call_date c) samples = Some s
           \<and> c = (lat_of s, lon_of s, sample_date E s)"
    unfolding c by (blast dest: find_first_seen)
  ultimately show ?thesis by blast
qed

theorem cloud_disabled_attenuation_witness:
  "update_solar_production (day_env 10 30 (Reply 200 (Some (cloud_payload ''20240621'' 50))))
     (Some (Geojson (Some (Feature (Some [(0, 0), (1, 0)]) # [])))) 10 (1 / 5) (Some 0) 20 []
   = Inr (Production [0, 600000000, 1200000000] [1, 1, 1] (1 / 2), [(0, 0, ''2024-06-21'')])
   \<and> ''on'' \<notin> set ([] :: string list)
   \<and> distinct (map call_date [(0 :: real, 0 :: real, ''2024-06-21'')])"
  using cloud_disabled_attenuation [OF half_cloud_off_run [unfolded line_route_def]]
    half_cloud_off_run [unfolded line_route_def]
  by simp

text \<open>
  C2 as stated fails: with the flag off, on a route of two equal waypoints, the run sends a
  request to the provider.
\<close>

theorem cloud_disabled_no_provider_call_counterexample:
  "update_solar_production (day_env 0 30 (Reply 200 (Some (cloud_payload ''20240621'' 50))))
     (Some (Geojson (Some [Feature (Some [(0, 0), (0, 0)])]))) 10 (1 / 5) (Some 0) 20 []
   = Inr (Production [0, 600000000] [1, 1] (1 / 3), [(0, 0, ''2024-06-21'')])"
  by (simp add: run_simps)

text \<open>
  C3, as the code has it. The output series holds exactly the samples of the route whose
  solar elevation is above 0, in order: a sample at or below the horizon is left out.
  The power of a sample in the result is area times yield times the sine of its elevation
  times its attenuation, where the attenuation is 1 with the cloud flag off and, with the
  flag on, 1 minus the cloud fraction that \<^verbatim>\<open>fetch_cloud_cover\<close> returned for the request
  of the date of the sample. For an area and a yield above 0 and elevations below 180
  degrees, the power is above 0 exactly when the attenuation is above 0, and a sample with
  the attenuation 0 (a cloud amount of 100 percent) is in the series with the power 0.
\<close>

theorem retained_samples_daylight:
  assumes "update_solar_production E (Some (Geojson (Some (Feature (Some coordinates) # fs))))
             a k (Some ct) v tg = Inr (Production ts ps tot, calls)"
    and "0 < a" and "0 < k"
    and "\<forall>t lat lon. apparent_elevation E t lat lon < 180"
  defines "samples \<equiv> route_samples E (params_of a k v tg) (positions_of coordinates) ct"
  defines "elevation \<equiv> \<lambda>s. apparent_elevation E (fst s) (lat_of s) (lon_of s)"
  defines "attenuation \<equiv>
    \<lambda>s. if ''on'' \<in> set tg then 1 - fetched_fraction E 0 calls (sample_date E s) else 1"
  defines "production \<equiv> \<lambda>s. a * k * sin (elevation s * pi / 180) * attenuation s"
  shows "ts = map fst (filter (\<lambda>s. 0 < elevation s) samples)
     \<and> ps = map production (filter (\<lambda>s. 0 < elevation s) samples)
     \<and> (\<forall>s \<in> set (filter (\<lambda>s. 0 < elevation s) samples).
           (0 < production s \<longleftrightarrow> 0 < attenuation s) \<and> (attenuation s = 0 \<longrightarrow> production s = 0))"
proof -
  let ?P = "params_of a k v tg"
  have d: "daylight E = (\<lambda>s. 0 < elevation s)"
    by (auto simp: daylight_def elevation_def lat_of_def lon_of_def fun_eq_iff)
  have p: "clear_sky_power E ?P s
            * attenuation_with (''on'' \<in> set tg) (fetched_fraction E 0 calls) (sample_date E s)
          = production s" for s
    by (cases s)
      (simp add: clear_sky_power_def params_of_def production_def elevation_def attenuation_def
        attenuation_with_def lat_of_def lon_of_def)
  have "ts = map fst (filter (\<lambda>s. 0 < elevation s) samples)"
    using update_solar_production_samples(1) [OF assms(1)] by (simp add: samples_def d)
  moreover have "ps = map production (filter (\<lambda>s. 0 < elevation s) samples)"
    using update_solar_production_powers [OF assms(1)] by (simp add: samples_def d p)
  moreover have "(0 < production s \<longleftrightarrow> 0 < attenuation s) \<and> (attenuation s = 0 \<longrightarrow> production s = 0)"
    if "s \<in> set (filter (\<lambda>s. 0 < elevation s) samples)" for s
  proof -
    from that have "0 < elevation s" by simp
    moreover have "elevation s < 180" using assms(4) by (simp add: elevation_def)
    ultimately have "0 < sin (elevation s * pi / 180)" by (rule sin_degrees_pos)
    with assms(2,3) have c: "0 < a * k * sin (elevation s * pi / 180)" by simp
    have "0 < a * k * sin (elevation s * pi / 180) * attenuation s \<longleftrightarrow> 0 < attenuation s"
    proof
      assume "0 < a * k * sin (elevation s * pi / 180) * attenuation s"
      then show "0 < attenuation s" using c by (rule zero_less_mult_pos)
    next
      assume "0 < attenuation s"
      with c show "0 < a * k * sin (elevation s * pi / 180) * attenuation s" by (rule mult_pos_pos)
    qed
    then show ?thesis by (simp add: production_def)
  qed
  ultimately show ?thesis by blast
qed

theorem retained_samples_daylight_witness:
  "update_solar_production (day_env 10 30 (Reply 200 (Some (cloud_payload ''20240621'' 50))))
     (Some (Geojson (Some (Feature (Some [(0, 0), (1, 0)]) # [])))) 10 (1 / 5) (Some 0) 20 [''on'']
   = Inr (Production [0, 600000000, 1200000000] [1 / 2, 1 / 2, 1 / 2] (1 / 4),
          [(0, 0, ''2024-06-21'')])
   \<and> (0 :: real) < 10 \<and> (0 :: real) < 1 / 5
   \<and> (\<forall>t lat lon. apparent_elevation
          (day_env 10 30 (Reply 200 (Some (cloud_payload ''20240621'' 50)))) t lat lon < 180)
   \<and> [1 / 2, 1 / 2, 1 / 2]
       = map (\<lambda>s. 10 * (1 / 5)
                * sin (apparent_elevation
                         (day_env 10 30 (Reply 200 (Some (cloud_payload ''20240621'' 50))))
                         (fst s) (lat_of s) (lon_of s) * pi / 180)
                * (if ''on'' \<in> set [''on'']
                   then 1 - fetched_fraction
                          (day_env 10 30 (Reply 200 (Some (cloud_payload ''20240621'' 50))))
                          0 [(0, 0, ''2024-06-21'')] (sample_date
                            (day_env 10 30 (Reply 200 (Some (cloud_payload ''20240621'' 50)))) s)
                   else 1))
           (filter (\<lambda>s. 0 < apparent_elevation
                         (day_env 10 30 (Reply 200 (Some (cloud_payload ''20240621'' 50))))
                         (fst s) (lat_of s) (lon_of s))
              (route_samples (day_env 10 30 (Reply 200 (Some (cloud_payload ''20240621'' 50))))
                 (params_of 10 (1 / 5) 20 [''on'']) (positions_of [(0, 0), (1, 0)]) 0))"
proof -
  have e: "\<forall>t lat lon. apparent_elevation
          (day_env 10 30 (Reply 200 (Some (cloud_payload ''20240621'' 50)))) t lat lon < 180"
    by (simp add: day_env_def)
  have 1: "(0 :: real) < 10" and 2: "(0 :: real) < 1 / 5" by simp_all
  from retained_samples_daylight [OF half_cloud_run [unfolded line_route_def] 1 2 e]
  show ?thesis using half_cloud_run [unfolded line_route_def] e by simp
qed

text \<open>
  C3 as stated fails: when the provider reports a cloud amount of 100 percent, the samples
  in daylight are recorded with the power 0.
\<close>

theorem retained_power_positive_counterexample:
  "update_solar_production (day_env 10 30 (Reply 200 (Some (cloud_payload ''20240621'' 100))))
     line_route 10 (1 / 5) (Some 0) 20 [''on'']
   = Inr (Production [0, 600000000, 1200000000] [0, 0, 0] 0, [(0, 0, ''2024-06-21'')])"
  by (simp add: run_simps)

text \<open>
  C4, as the code has it. When every segment of the route but the last takes at least ten
  minutes, the times of the samples of the whole route never decrease, and so the times of
  the output series never decrease: the first sample of a segment is not earlier than the
  last sample of the segment before.
\<close>

theorem timestamps_sorted:
  assumes "update_solar_production E (Some (Geojson (Some (Feature (Some coordinates) # fs))))
             a k (Some ct) v tg = Inr (Production ts ps tot, calls)"
    and "\<forall>d \<in> set (butlast (route_durations E (params_of a k v tg) (positions_of coordinates))).
           600000000 \<le> d"
  shows "sorted (map fst (route_samples E (params_of a k v tg) (positions_of coordinates) ct))
    \<and> sorted ts"
proof -
  let ?samples = "route_samples E (params_of a k v tg) (positions_of coordinates) ct"
  from sorted_route_samples [OF assms(2)] have s: "sorted (map fst ?samples)" by blast
  have "ts = map fst (filter (daylight E) ?samples)"
    by (rule update_solar_production_samples(1) [OF assms(1)])
  with s show ?thesis by (simp add: sorted_filter)
qed

theorem timestamps_sorted_witness:
  "update_solar_production (day_env 10 30 (Reply 500 None))
     (Some (Geojson (Some (Feature (Some [(0, 0), (1, 0), (2, 0)]) # [])))) 10 (1 / 5) (Some 0) 20 []
   = Inr (Production [0, 600000000, 1200000000, 1800000000, 2400000000, 3000000000]
            [1, 1, 1, 1, 1, 1] 1, [(0, 0, ''2024-06-21'')])
   \<and> route_durations (day_env 10 30 (Reply 500 None))
          (params_of 10 (1 / 5) 20 []) (positions_of [(0, 0), (1, 0), (2, 0)])
       = [1800000000, 1800000000]
   \<and> list_all (\<lambda>d. 600000000 \<le> d) (butlast [1800000000 :: int, 1800000000])
   \<and> sorted [0 :: int, 600000000, 1200000000, 1800000000, 2400000000, 3000000000]"
proof -
  have h: "\<forall>d \<in> set (butlast (route_durations (day_env 10 30 (Reply 500 None))
          (params_of 10 (1 / 5) 20 []) (positions_of [(0, 0), (1, 0), (2, 0)]))). 600000000 \<le> d"
    by (simp add: two_leg_durations)
  from timestamps_sorted [OF two_leg_run h] two_leg_run two_leg_durations show ?thesis by simp
qed

text \<open>
  C4 as stated fails on a route with a segment shorter than ten minutes that is not the
  last: the segment has two samples, at its start and ten minutes later, and the next
  segment starts before the second one. Here both segments have length 0.
\<close>

theorem timestamps_not_sorted_counterexample:
  "update_solar_production (day_env 0 30 (Reply 500 None))
     (Some (Geojson (Some [Feature (Some [(0, 0), (0, 0), (0, 0)])]))) 10 (1 / 5) (Some 0) 20 []
   = Inr (Production [0, 600000000, 0, 600000000] [1, 1, 1, 1] (2 / 3), [(0, 0, ''2024-06-21'')])"
  by (simp add: run_simps after_response_def)



text \<open>
  C6. In one run, the provider is queried at most once for a date: the dates of the requests
  are distinct. The request for a date carries the position of the first sample of the
  route that has this date. Every sample of the date is evaluated with the cloud fraction
  that this one request returned: the attenuation of a sample is a function of its date.
\<close>

theorem one_query_per_date:
  assumes "update_solar_production E (Some (Geojson (Some (Feature (Some coordinates) # fs))))
             a k (Some ct) v tg = Inr (Production ts ps tot, calls)"
  defines "P \<equiv> params_of a k v tg"
  defines "samples \<equiv> route_samples E P (positions_of coordinates) ct"
  shows "distinct (map call_date calls)
    \<and> (\<forall>c \<in> set calls. \<exists>s. find (\<lambda>s. sample_date E s = call_date c) samples = Some s
           \<and> c = (lat_of s, lon_of s, sample_date E s))
    \<and> (\<exists>fraction.
           (\<forall>i < length calls.
               fetch_cloud_cover E i (fst (calls ! i)) (fst (snd (calls ! i))) (call_date (calls ! i))
               = Inr (fraction (call_date (calls ! i))))
           \<and> ps = map (\<lambda>s. clear_sky_power E P s
                         * attenuation_with (''on'' \<in> set tg) fraction (sample_date E s))
                     (filter (daylight E) samples))"
proof -
  note r = update_solar_production_samples [OF assms(1)]
  have c: "calls = first_seen E {} samples"
    using r(2) by (simp add: samples_def P_def)
  have "distinct (map call_date calls)"
    unfolding c by (rule distinct_first_seen)
  moreover have "\<forall>c \<in> set calls. \<exists>s. find (\<lambda>s. sample_date E s = call_date c) samples = Some s
           \<and> c = (lat_of s, lon_of s, sample_date E s)"
    unfolding c by (blast dest: find_first_seen)
  ultimately show ?thesis using r(3) by (simp add: samples_def P_def)
qed

theorem one_query_per_date_witness:
  "update_solar_production (day_env 10 30 (Reply 200 (Some (cloud_payload ''20240621'' 50))))
     (Some (Geojson (Some (Feature (Some [(0, 0), (1, 0)]) # [])))) 10 (1 / 5) (Some 0) 20 [''on'']
   = Inr (Production [0, 600000000, 1200000000] [1 / 2, 1 / 2, 1 / 2] (1 / 4),
          [(0, 0, ''2024-06-21'')])
   \<and> distinct (map call_date [(0 :: real, 0 :: real, ''2024-06-21'')])"
  using one_query_per_date [OF half_cloud_run [unfolded line_route_def]]
    half_cloud_run [unfolded line_route_def] by simp


text \<open>
  C7, as the code has it. Without a geojson, without the key "features" or with an empty
  list of features, the callback returns the invalid result and sends no request. A first
  feature with fewer than two waypoints passes this test: the loop over the segments has
  nothing to do, and the callback returns a production with an empty series and the total
  0, and sends no request.
\<close>

theorem short_route_guard:
  "(g = None \<or> g = Some (Geojson None) \<or> g = Some (Geojson (Some []))
      \<longrightarrow> update_solar_production E g a k sd v tg = Inr (InvalidInputs, []))
   \<and> (length coordinates < 2
      \<longrightarrow> update_solar_production E (Some (Geojson (Some (Feature (Some coordinates) # fs))))
            a k (Some ct) v tg = Inr (Production [] [] 0, []))"
proof -
  have "update_solar_production E (Some (Geojson (Some (Feature (Some coordinates) # fs))))
            a k (Some ct) v tg = Inr (Production [] [] 0, [])"
    if "length coordinates < 2"
  proof -
    from that have "coordinates = [] \<or> (\<exists>c. coordinates = [c])"
      by (cases coordinates) (auto simp: length_Suc_conv)
    then show ?thesis
      by (auto simp: update_solar_production_def initial_state_def)
  qed
  then show ?thesis by (auto simp: update_solar_production_def)
qed

theorem short_route_guard_witness:
  "update_solar_production (day_env 10 30 RequestException) None 10 (1 / 5) (Some 0) 20 [''on'']
     = Inr (InvalidInputs, [])
   \<and> length [(0 :: real, 0 :: real)] < 2
   \<and> update_solar_production (day_env 10 30 RequestException)
        (Some (Geojson (Some (Feature (Some [(0, 0)]) # [])))) 10 (1 / 5) (Some 0) 20 [''on'']
     = Inr (Production [] [] 0, [])"
  using short_route_guard [of None "(day_env 10 30 RequestException)" 10 "1 / 5" "Some 0" 20 "[''on'']"
      "[(0, 0)]" "[]" 0]
  by simp

text \<open>
  C7 as stated fails: for a route of one waypoint the callback returns a production, not the
  invalid result.
\<close>

theorem single_waypoint_not_invalid_counterexample:
  "update_solar_production (day_env 10 30 (Reply 200 (Some (cloud_payload ''20240621'' 50))))
     (Some (Geojson (Some [Feature (Some [(3, 4)])]))) 10 (1 / 5) (Some 0) 20 [''on'']
   = Inr (Production [] [] 0, [])"
  by (simp add: update_solar_production_def initial_state_def)

text \<open>
  C8, as the code has it. The code holds the duration distance / speed hours of a segment
  as a timedelta: the number of microseconds nearest to it. The inner loop runs over
  max(2, floor(seconds / 600)) samples, where seconds is this rounded duration in seconds;
  these are at least 2, and 2 for a segment of length 0.
\<close>

theorem segment_sample_count:
  assumes "process_segment E P start end ct st = Inr (ct', st')"
  shows "\<exists>d. timedelta_hours (geodesic_km E start end / vessel_speed P) = Inr d
     \<and> d = round_half_even (geodesic_km E start end / vessel_speed P * 3600000000)
     \<and> \<bar>real_of_int d - geodesic_km E start end / vessel_speed P * 3600000000\<bar> \<le> 1 / 2
     \<and> run_samples E P (segment_samples start end ct (num_steps_of d)) st = Inr st'
     \<and> length (segment_samples start end ct (num_steps_of d)) = spec_sample_count (total_seconds d)
     \<and> 2 \<le> length (segment_samples start end ct (num_steps_of d))
     \<and> (geodesic_km E start end = 0 \<longrightarrow> length (segment_samples start end ct (num_steps_of d)) = 2)"
proof -
  from process_segment_Inr [OF assms] obtain d where
    d: "timedelta_hours (geodesic_km E start end / vessel_speed P) = Inr d"
    and run: "run_samples E P (segment_samples start end ct (num_steps_of d)) st = Inr st'"
    by blast
  have r: "d = round_half_even (geodesic_km E start end / vessel_speed P * 3600000000)"
    using d by (rule timedelta_hours_Inr)
  have n: "\<bar>real_of_int d - geodesic_km E start end / vessel_speed P * 3600000000\<bar> \<le> 1 / 2"
    unfolding r by (rule round_half_even_near)
  have "d = 0" if "geodesic_km E start end = 0"
    using d that by (simp add: timedelta_hours_zero)
  then have z: "geodesic_km E start end = 0 \<longrightarrow> length (segment_samples start end ct (num_steps_of d)) = 2"
    by (auto simp: length_segment_samples num_steps_of_zero)
  have c: "length (segment_samples start end ct (num_steps_of d)) = spec_sample_count (total_seconds d)"
    by (simp add: length_segment_samples num_steps_of_spec)
  have g: "2 \<le> length (segment_samples start end ct (num_steps_of d))"
    by (simp add: length_segment_samples num_steps_of_ge_2)
  from d r n run c g z show ?thesis by blast
qed

theorem segment_sample_count_witness:
  "process_segment (day_env 10 (- 10) (Reply 500 None)) (params_of 10 (1 / 5) 20 []) (0, 0) (0, 1) 0
     initial_state
   = Inr (1800000000, initial_state\<lparr>cloud_cover_cache := [''2024-06-21'' \<mapsto> 0],
                         provider_calls := [(0, 0, ''2024-06-21'')]\<rparr>)
   \<and> length (segment_samples (0, 0) (0, 1) 0 (num_steps_of 1800000000))
       = spec_sample_count (total_seconds 1800000000)
   \<and> spec_sample_count (total_seconds 1800000000) = 3"
  using segment_sample_count [OF night_segment] night_segment
  by (simp add: day_env_def params_of_def timedelta_hours_half spec_sample_count_def total_seconds_def)

text \<open>
  C8 as stated fails when the rounding to microseconds crosses a multiple of ten minutes:
  9.999999998 km at 20 km/h take 1799.99999964 seconds, for which the formula gives 2
  samples, and the timedelta is 1800 seconds, for which the loop runs over 3 samples.
\<close>

theorem sample_count_exact_duration_counterexample:
  "update_solar_production (day_env (9999999998 / 1000000000) 30 (Reply 500 None))
     (Some (Geojson (Some [Feature (Some [(0, 0), (1, 0)])]))) 10 (1 / 5) (Some 0) 20 []
   = Inr (Production [0, 600000000, 1200000000] [1, 1, 1] (1 / 2), [(0, 0, ''2024-06-21'')])
   \<and> spec_sample_count (9999999998 / 1000000000 / 20 * 3600) = 2"
proof -
  have t: "timedelta_hours (4999999999 / 10000000000) = Inr 1800000000"
    by (simp add: timedelta_hours_def round_half_even_def Let_def)
  have "update_solar_production (day_env (9999999998 / 1000000000) 30 (Reply 500 None))
     (Some (Geojson (Some [Feature (Some [(0, 0), (1, 0)])]))) 10 (1 / 5) (Some 0) 20 []
   = Inr (Production [0, 600000000, 1200000000] [1, 1, 1] (1 / 2), [(0, 0, ''2024-06-21'')])"
    by (simp add: run_simps after_response_def t)
  moreover have "spec_sample_count (9999999998 / 1000000000 / 20 * 3600) = 2"
    by (simp add: spec_sample_count_def)
  ultimately show ?thesis by simp
qed



text \<open>
  C10. For every sample of the route, there is exactly one request with the date of the
  sample, and it carries the position of the first sample of that date, whether the sun is
  above the horizon there or not (and whatever the cloud flag is, so with the flag on in
  particular). When all the samples of a date are at or below the horizon, no time of the
  output series has this date, and the date has still cost exactly one request.
\<close>

theorem query_precedes_elevation:
  assumes "update_solar_production E (Some (Geojson (Some (Feature (Some coordinates) # fs))))
             a k (Some ct) v tg = Inr (Production ts ps tot, calls)"
  defines "samples \<equiv> route_samples E (params_of a k v tg) (positions_of coordinates) ct"
  assumes "s \<in> set samples"
  shows "\<exists>s0. find (\<lambda>s'. sample_date E s' = sample_date E s) samples = Some s0
    \<and> filter (\<lambda>c. call_date c = sample_date E s) calls = [(lat_of s0, lon_of s0, sample_date E s)]
    \<and> ((\<forall>s' \<in> set samples. sample_date E s' = sample_date E s \<longrightarrow> apparent_elevation E (fst s') (lat_of s') (lon_of s') \<le> 0)
         \<longrightarrow> (\<forall>t \<in> set ts. strftime_date E t \<noteq> sample_date E s))"
proof -
  note r = update_solar_production_samples [OF assms(1)]
  have c: "calls = first_seen E {} samples" and t: "ts = map fst (filter (daylight E) samples)"
    using r(1,2) by (simp_all add: samples_def)
  have "find (\<lambda>s'. sample_date E s' = sample_date E s) samples \<noteq> None"
    unfolding find_None_iff using assms(3) by blast
  then obtain s0 where s0: "find (\<lambda>s'. sample_date E s' = sample_date E s) samples = Some s0"
    by blast
  have "filter (\<lambda>c. call_date c = sample_date E s) calls = [(lat_of s0, lon_of s0, sample_date E s)]"
    by (simp add: c filter_first_seen s0 lat_of_def lon_of_def)
  moreover have "\<forall>t \<in> set ts. strftime_date E t \<noteq> sample_date E s"
    if "\<forall>s' \<in> set samples. sample_date E s' = sample_date E s \<longrightarrow> apparent_elevation E (fst s') (lat_of s') (lon_of s') \<le> 0"
    using that by (fastforce simp: t daylight_def sample_date_def lat_of_def lon_of_def)
  ultimately show ?thesis using s0 by blast
qed

theorem query_precedes_elevation_witness:
  "update_solar_production (day_env 10 (- 10) (Reply 200 (Some (cloud_payload ''20240621'' 50))))
     (Some (Geojson (Some (Feature (Some [(0, 0), (1, 0)]) # [])))) 10 (1 / 5) (Some 0) 20 [''on'']
   = Inr (Production [] [] 0, [(0, 0, ''2024-06-21'')])
   \<and> (0, 0, 0) \<in> set (route_samples (day_env 10 (- 10) (Reply 200 (Some (cloud_payload ''20240621'' 50))))
                        (params_of 10 (1 / 5) 20 [''on'']) (positions_of [(0, 0), (1, 0)]) 0)
   \<and> filter (\<lambda>c. call_date c = ''2024-06-21'') [(0 :: real, 0 :: real, ''2024-06-21'')]
       = [(0, 0, ''2024-06-21'')]"
  using query_precedes_elevation [OF night_run [unfolded line_route_def], of "(0, 0, 0)"]
    night_run [unfolded line_route_def]
  by (simp add: line_samples call_date_def)

end
